theory Spec2Isabelle
  imports Complex_Main "HOL-Library.Char_ord" "HOL-Library.List_Lexorder"
begin

section \<open>Batch tag generator: a model of \<^verbatim>\<open>tag_generator.py\<close>\<close>

text \<open>
  The program scans the directory \<^verbatim>\<open>imgs\<close>, sends every image that has no sidecar
  \<^verbatim>\<open>txts/<stem>.txt\<close> yet to a remote tagging service, writes the answer to that
  sidecar, appends failures to \<^verbatim>\<open>txts/_erros.log\<close> and prints a report.

  Everything the program does is input and output, so the model threads one record of
  state (the \<^verbatim>\<open>GeradorTags\<close> object, the two directories, what was printed, the
  remote calls made) through the functions, and reads what the outside world answers
  (does connecting fail, what does \<^verbatim>\<open>predict\<close> return, does a write fail, what does
  the clock say) from a second record that the functions never change.

  Strings are byte strings: a file name or a tag string is the list of the bytes of its
  UTF-8 encoding, so that writing "UTF-8 encoded" is writing the list as it is, and the
  byte-wise order of two names is Python's code point order.
\<close>

subsection \<open>Path names (\<^verbatim>\<open>pathlib\<close>, Python 3.4 to 3.13)\<close>

text \<open>\<^verbatim>\<open>str.rfind(c)\<close>: the index of the last occurrence, or \<open>-1\<close>.\<close>

fun rfind :: "string \<Rightarrow> char \<Rightarrow> int" where
  "rfind [] c = - 1"
| "rfind (x # xs) c =
     (let r = rfind xs c in if 0 \<le> r then r + 1 else if x = c then 0 else - 1)"

text \<open>
  \<^verbatim>\<open>PurePath.suffix\<close> and \<^verbatim>\<open>PurePath.stem\<close> of a path whose final component is
  \<open>name\<close>: \<^verbatim>\<open>i = name.rfind('.')\<close>, and the name is split at \<open>i\<close> only
  \<^verbatim>\<open>if 0 < i < len(name) - 1\<close>.
\<close>

definition suffix :: "string \<Rightarrow> string" where
  "suffix name =
     (let i = rfind name (CHR ''.'')
      in if 0 < i \<and> i < int (length name) - 1 then drop (nat i) name else [])"

definition stem :: "string \<Rightarrow> string" where
  "stem name =
     (let i = rfind name (CHR ''.'')
      in if 0 < i \<and> i < int (length name) - 1 then take (nat i) name else name)"

text \<open>
  \<^verbatim>\<open>str.lower()\<close> on the bytes of a name: the ASCII capitals are mapped, every other
  byte stays. (No character outside ASCII lower-cases to a letter of an accepted
  extension, so membership in \<open>EXTENSOES\<close> is decided as Python decides it.)
\<close>

definition lower_char :: "char \<Rightarrow> char" where
  "lower_char c =
     (case map_of (zip ''ABCDEFGHIJKLMNOPQRSTUVWXYZ'' ''abcdefghijklmnopqrstuvwxyz'') c of
        Some d \<Rightarrow> d
      | None \<Rightarrow> c)"

definition lower :: "string \<Rightarrow> string" where
  "lower s = map lower_char s"

subsection \<open>\<^verbatim>\<open>Config\<close>\<close>

definition EXTENSOES :: "string set" where
  "EXTENSOES = {''.jpg'', ''.jpeg'', ''.png'', ''.gif'', ''.webp'', ''.bmp''}"

subsection \<open>Exceptions and the values of the remote service\<close>

text \<open>
  The program never looks at the class of an exception, only at \<^verbatim>\<open>str(e)\<close>.
  \<open>Exception\<close> stands for whatever the \<^verbatim>\<open>gradio_client\<close> library raises.
\<close>

datatype excecao = OSError string | TypeError string | IndexError string | Exception string

fun str :: "excecao \<Rightarrow> string" where
  "str (OSError m) = m"
| "str (TypeError m) = m"
| "str (IndexError m) = m"
| "str (Exception m) = m"

text \<open>
  What \<^verbatim>\<open>client.predict\<close> returns: \<^verbatim>\<open>None\<close>, or a tuple or a list whose elements are
  strings or values of another type (\<open>VOutro\<close> carries the name of that type).
\<close>

datatype valor = VStr string | VOutro string

datatype resultado = RNone | RTuple "valor list" | RList "valor list"

text \<open>\<^verbatim>\<open>resultado[0]\<close>\<close>

fun getitem0 :: "resultado \<Rightarrow> excecao + valor" where
  "getitem0 RNone = Inl (TypeError ''NoneType object is not subscriptable'')"
| "getitem0 (RTuple []) = Inl (IndexError ''tuple index out of range'')"
| "getitem0 (RTuple (v # vs)) = Inr v"
| "getitem0 (RList []) = Inl (IndexError ''list index out of range'')"
| "getitem0 (RList (v # vs)) = Inr v"

subsection \<open>State and environment\<close>

text \<open>The input directory: a path is absent, a regular file, or a directory of named entries.\<close>

datatype no = Arq | Dir "(string \<times> no) list"

text \<open>One constructor for each \<^verbatim>\<open>print\<close> call of the source, with the values it formats.\<close>

datatype msg =
    ErroBiblioteca | InstaleUsando
  | Regua | Titulo
  | PastaEntradaNaoEncontrada | CrieAPasta | PastaSaidaCriada
  | NenhumaImagem
  | Conectando | Conectado | FalhaConexao string | VerifiqueInternet
  | Iniciando int
  | Pulando int int string
  | Analisando int int string
  | Feito
  | ErroAoProcessar string string
  | Traco | RelatorioFinal
  | Processados int | JaExistiam int | Falhas int | TempoTotal real | Media real

datatype chamada = Conectar | Predict string

text \<open>
  \<open>client\<close> to \<open>tempo_total\<close> are the \<^verbatim>\<open>GeradorTags\<close> object (\<open>client\<close> is
  \<^verbatim>\<open>self.client is not None\<close>; the counters and \<open>tempo_total\<close> are the keys of
  \<^verbatim>\<open>self.stats\<close>, \<open>tempo_total\<close> absent until the batch loop sets it).
  \<open>entrada\<close> is the path \<^verbatim>\<open>imgs\<close>; \<open>saida\<close> is the directory \<^verbatim>\<open>txts\<close>, absent or a map
  from file names to contents; \<open>stdout\<close> is what was printed and \<open>rede\<close> the calls made
  to the remote service, both in order.
\<close>

record estado =
  client :: bool
  sucesso :: int
  falha :: int
  ignorado :: int
  tempo_total :: "real option"
  entrada :: "no option"
  saida :: "(string \<rightharpoonup> string) option"
  stdout :: "msg list"
  rede :: "chamada list"

text \<open>
  What the outside world answers. \<open>Some m\<close> in a \<open>_falha\<close> field is the operation raising
  with message \<open>m\<close>. The answers about one image are indexed by its file name.
  \<open>gravar_falha\<close> also gives what the failed write left in the file.
\<close>

record ambiente =
  gradio_client_disponivel :: bool
  mkdir_falha :: "string option"
  conexao_falha :: "string option"
  predict :: "string \<Rightarrow> string + resultado"
  abrir_falha :: "string \<Rightarrow> string option"
  gravar_falha :: "string \<Rightarrow> (string \<times> string) option"
  log_falha :: "string \<Rightarrow> string option"
  strftime :: "string \<Rightarrow> string"
  t_inicio :: real
  t_fim :: real

definition imprimir :: "msg list \<Rightarrow> estado \<Rightarrow> estado" where
  "imprimir ms w = w\<lparr>stdout := stdout w @ ms\<rparr>"

text \<open>\<^verbatim>\<open>(Config.PASTA_SAIDA / nome).exists()\<close>\<close>

definition existe :: "estado \<Rightarrow> string \<Rightarrow> bool" where
  "existe w nome = (case saida w of None \<Rightarrow> False | Some arqs \<Rightarrow> arqs nome \<noteq> None)"

subsection \<open>The operations of \<^verbatim>\<open>GeradorTags\<close>\<close>

text \<open>\<^verbatim>\<open>__init__\<close>\<close>

definition init :: "estado \<Rightarrow> estado" where
  "init w = w\<lparr>client := False, sucesso := 0, falha := 0, ignorado := 0, tempo_total := None\<rparr>"

definition exibir_boas_vindas :: "estado \<Rightarrow> estado" where
  "exibir_boas_vindas w = imprimir [Regua, Titulo, Regua] w"

text \<open>
  \<^verbatim>\<open>_verificar_pastas\<close>. \<^verbatim>\<open>mkdir\<close> is the one call that can raise; nothing catches it.
\<close>

definition verificar_pastas :: "ambiente \<Rightarrow> estado \<Rightarrow> excecao + (bool \<times> estado)" where
  "verificar_pastas env w =
     (if entrada w = None then
        Inr (False, imprimir [PastaEntradaNaoEncontrada, CrieAPasta] w)
      else if saida w = None then
        (case mkdir_falha env of
           Some m \<Rightarrow> Inl (OSError m)
         | None \<Rightarrow> Inr (True, imprimir [PastaSaidaCriada] (w\<lparr>saida := Some Map.empty\<rparr>)))
      else Inr (True, w))"

text \<open>
  \<^verbatim>\<open>_listar_imagens\<close>. An image is named by the final component of its path; all the
  paths share the parent \<^verbatim>\<open>imgs\<close>, so sorting the paths is sorting the names.
  \<^verbatim>\<open>iterdir\<close> raises when the path is not a directory.
\<close>

definition listar_imagens :: "estado \<Rightarrow> excecao + string list" where
  "listar_imagens w =
     (case entrada w of
        None \<Rightarrow> Inl (OSError ''[Errno 2] No such file or directory'')
      | Some Arq \<Rightarrow> Inl (OSError ''[Errno 20] Not a directory'')
      | Some (Dir filhos) \<Rightarrow>
          Inr (sort [arq. (arq, n) \<leftarrow> filhos, n = Arq, lower (suffix arq) \<in> EXTENSOES]))"

text \<open>\<^verbatim>\<open>_conectar_api\<close>: the \<^verbatim>\<open>except\<close> clause swallows the failure and leaves \<open>client\<close> unset.\<close>

definition conectar_api :: "ambiente \<Rightarrow> estado \<Rightarrow> estado" where
  "conectar_api env w =
     (let w1 = imprimir [Conectando] w;
          w2 = w1\<lparr>rede := rede w1 @ [Conectar]\<rparr>
      in case conexao_falha env of
           None \<Rightarrow> imprimir [Conectado] (w2\<lparr>client := True\<rparr>)
         | Some e \<Rightarrow> imprimir [FalhaConexao e, VerifiqueInternet] w2)"

text \<open>\<^verbatim>\<open>_log_erro\<close>: append one formatted line to \<^verbatim>\<open>txts/_erros.log\<close>.\<close>

definition linha_log :: "string \<Rightarrow> string \<Rightarrow> string \<Rightarrow> string" where
  "linha_log hora arquivo erro = ''['' @ hora @ ''] '' @ arquivo @ '': '' @ erro @ [CHR 0x0A]"

definition log_erro :: "ambiente \<Rightarrow> string \<Rightarrow> string \<Rightarrow> estado \<Rightarrow> excecao + estado" where
  "log_erro env arquivo erro w =
     (case saida w of
        None \<Rightarrow> Inl (OSError ''[Errno 2] No such file or directory'')
      | Some arqs \<Rightarrow>
          (case log_falha env arquivo of
             Some m \<Rightarrow> Inl (OSError m)
           | None \<Rightarrow>
               Inr (w\<lparr>saida := Some (arqs(''_erros.log'' \<mapsto>
                      (case arqs ''_erros.log'' of None \<Rightarrow> [] | Some c \<Rightarrow> c)
                        @ linha_log (strftime env arquivo) arquivo erro))\<rparr>)))"

text \<open>
  The \<^verbatim>\<open>try\<close> block of \<^verbatim>\<open>_gerar_e_salvar\<close>. \<open>Inl (e, w')\<close> is the exception \<open>e\<close> raised
  in state \<open>w'\<close>: \<^verbatim>\<open>open(destino, "w")\<close> has created the file before \<^verbatim>\<open>f.write\<close> runs.
\<close>

definition bloco_try ::
  "ambiente \<Rightarrow> string \<Rightarrow> string \<Rightarrow> estado \<Rightarrow> (excecao \<times> estado) + estado" where
  "bloco_try env imagem destino w =
     (let w1 = w\<lparr>rede := rede w @ [Predict imagem]\<rparr>
      in case predict env imagem of
           Inl m \<Rightarrow> Inl (Exception m, w1)
         | Inr resultado \<Rightarrow>
             (case getitem0 resultado of
                Inl e \<Rightarrow> Inl (e, w1)
              | Inr tags \<Rightarrow>
                  (case saida w1 of
                     None \<Rightarrow> Inl (OSError ''[Errno 2] No such file or directory'', w1)
                   | Some arqs \<Rightarrow>
                       (case abrir_falha env imagem of
                          Some m \<Rightarrow> Inl (OSError m, w1)
                        | None \<Rightarrow>
                            (case tags of
                               VOutro t \<Rightarrow>
                                 Inl (TypeError (''write() argument must be str, not '' @ t),
                                      w1\<lparr>saida := Some (arqs(destino \<mapsto> []))\<rparr>)
                             | VStr s \<Rightarrow>
                                 (case gravar_falha env imagem of
                                    Some (m, resto) \<Rightarrow>
                                      Inl (OSError m, w1\<lparr>saida := Some (arqs(destino \<mapsto> resto))\<rparr>)
                                  | None \<Rightarrow>
                                      Inr (w1\<lparr>saida := Some (arqs(destino \<mapsto> s))\<rparr>)))))))"

text \<open>
  \<^verbatim>\<open>_gerar_e_salvar\<close>. The handler calls \<^verbatim>\<open>_log_erro\<close>, and an exception raised there
  leaves the function.
\<close>

definition gerar_e_salvar ::
  "ambiente \<Rightarrow> string \<Rightarrow> string \<Rightarrow> int \<Rightarrow> int \<Rightarrow> estado \<Rightarrow> excecao + (bool \<times> estado)" where
  "gerar_e_salvar env imagem destino atual total_imgs w =
     (case bloco_try env imagem destino (imprimir [Analisando atual total_imgs imagem] w) of
        Inr w1 \<Rightarrow> Inr (True, imprimir [Feito] w1)
      | Inl (e, w1) \<Rightarrow>
          (case log_erro env imagem (str e) (imprimir [ErroAoProcessar imagem (str e)] w1) of
             Inl e' \<Rightarrow> Inl e'
           | Inr w2 \<Rightarrow> Inr (False, w2)))"

text \<open>\<^verbatim>\<open>Config.PASTA_SAIDA / f"{imagem.stem}.txt"\<close>, as a file name inside \<^verbatim>\<open>txts\<close>.\<close>

definition caminho_txt :: "string \<Rightarrow> string" where
  "caminho_txt imagem = stem imagem @ ''.txt''"

text \<open>The \<^verbatim>\<open>for\<close> loop of \<^verbatim>\<open>_processar_lote\<close>, from index \<open>disponivel\<close> on.\<close>

fun laco :: "ambiente \<Rightarrow> int \<Rightarrow> int \<Rightarrow> string list \<Rightarrow> estado \<Rightarrow> excecao + estado" where
  "laco env total_imgs disponivel [] w = Inr w"
| "laco env total_imgs disponivel (imagem # resto) w =
     (if existe w (caminho_txt imagem) then
        laco env total_imgs (disponivel + 1) resto
          ((imprimir [Pulando disponivel total_imgs imagem] w)\<lparr>ignorado := ignorado w + 1\<rparr>)
      else
        (case gerar_e_salvar env imagem (caminho_txt imagem) disponivel total_imgs w of
           Inl e \<Rightarrow> Inl e
         | Inr (ok, w1) \<Rightarrow>
             laco env total_imgs (disponivel + 1) resto
               (if ok then w1\<lparr>sucesso := sucesso w1 + 1\<rparr> else w1\<lparr>falha := falha w1 + 1\<rparr>)))"

definition processar_lote :: "ambiente \<Rightarrow> string list \<Rightarrow> estado \<Rightarrow> excecao + estado" where
  "processar_lote env imagens w =
     (let total_imgs = int (length imagens);
          inicio = t_inicio env
      in case laco env total_imgs 1 imagens (imprimir [Iniciando total_imgs] w) of
           Inl e \<Rightarrow> Inl e
         | Inr w1 \<Rightarrow> Inr (w1\<lparr>tempo_total := Some (t_fim env - inicio)\<rparr>))"

text \<open>
  \<^verbatim>\<open>_exibir_relatorio_final\<close>. Times are real numbers here, and a printed number is the
  number itself, not its two-decimal rendering.
\<close>

definition exibir_relatorio_final :: "int \<Rightarrow> estado \<Rightarrow> estado" where
  "exibir_relatorio_final total_arquivos w =
     (let tempo = (case tempo_total w of Some t \<Rightarrow> t | None \<Rightarrow> 0);
          media = tempo / of_int (max (total_arquivos - ignorado w) 1)
      in imprimir
           ([Traco, RelatorioFinal, Traco,
             Processados (sucesso w), JaExistiam (ignorado w), Falhas (falha w),
             TempoTotal tempo]
            @ (if sucesso w > 0 then [Media media] else [])
            @ [Traco]) w)"

definition iniciar :: "ambiente \<Rightarrow> estado \<Rightarrow> excecao + estado" where
  "iniciar env w =
     (case verificar_pastas env (exibir_boas_vindas w) of
        Inl e \<Rightarrow> Inl e
      | Inr (ok, w1) \<Rightarrow>
          if \<not> ok then Inr w1
          else
            (case listar_imagens w1 of
               Inl e \<Rightarrow> Inl e
             | Inr imagens \<Rightarrow>
                 if imagens = [] then Inr (imprimir [NenhumaImagem] w1)
                 else
                   (let w2 = conectar_api env w1
                    in if \<not> client w2 then Inr w2
                       else
                         (case processar_lote env imagens w2 of
                            Inl e \<Rightarrow> Inl e
                          | Inr w3 \<Rightarrow>
                              Inr (exibir_relatorio_final (int (length imagens)) w3)))))"

subsection \<open>The script and the exit status of the process\<close>

text \<open>
  How the process ends: the script runs to its end, \<^verbatim>\<open>sys.exit(n)\<close> is called, or an
  exception reaches the top and the interpreter prints a traceback.
\<close>

datatype termino = Normal estado | SysExit int estado | Traceback excecao

definition script :: "ambiente \<Rightarrow> estado \<Rightarrow> termino" where
  "script env w =
     (if \<not> gradio_client_disponivel env then
        SysExit 1 (imprimir [ErroBiblioteca, InstaleUsando] w)
      else
        (case iniciar env (init w) of
           Inr w1 \<Rightarrow> Normal w1
         | Inl e \<Rightarrow> Traceback e))"

fun exit_status :: "termino \<Rightarrow> int" where
  "exit_status (Normal w) = 0"
| "exit_status (SysExit n w) = n"
| "exit_status (Traceback e) = 1"

subsection \<open>Two concrete scenarios\<close>

text \<open>
  An environment in which the service answers every image but \<^verbatim>\<open>b.png\<close>, whose call
  times out, and every write succeeds; and a file system with six entries in \<^verbatim>\<open>imgs\<close>
  and an empty \<^verbatim>\<open>txts\<close>.
\<close>

definition amb_exemplo :: ambiente where
  "amb_exemplo =
     \<lparr>gradio_client_disponivel = True, mkdir_falha = None, conexao_falha = None,
      predict = (\<lambda>img. if img = ''b.png'' then Inl ''timeout''
                       else Inr (RTuple [VStr ''1girl, solo, smile'', VOutro ''dict''])),
      abrir_falha = (\<lambda>img. None), gravar_falha = (\<lambda>img. None), log_falha = (\<lambda>img. None),
      strftime = (\<lambda>img. ''12:00:00''), t_inicio = 100, t_fim = 109\<rparr>"

definition mundo_exemplo :: estado where
  "mundo_exemplo =
     \<lparr>client = False, sucesso = 0, falha = 0, ignorado = 0, tempo_total = None,
      entrada = Some (Dir [(''photo.tiff'', Arq), (''cat.png'', Arq), (''photo.TXT'', Arq),
                           (''b.png'', Arq), (''a.jpg'', Dir [(''z.png'', Arq)]),
                           (''photo.JPG'', Arq)]),
      saida = Some Map.empty, stdout = [], rede = []\<rparr>"

section \<open>Basic facts\<close>

lemma imprimir_campos [simp]:
  "client (imprimir ms w) = client w" "sucesso (imprimir ms w) = sucesso w"
  "falha (imprimir ms w) = falha w" "ignorado (imprimir ms w) = ignorado w"
  "tempo_total (imprimir ms w) = tempo_total w" "entrada (imprimir ms w) = entrada w"
  "saida (imprimir ms w) = saida w" "rede (imprimir ms w) = rede w"
  "stdout (imprimir ms w) = stdout w @ ms"
  by (simp_all add: imprimir_def)

lemma processar_lote_Inr:
  assumes "processar_lote env imagens w0 = Inr w"
  shows "\<exists>w1. laco env (int (length imagens)) 1 imagens
                 (imprimir [Iniciando (int (length imagens))] w0) = Inr w1
              \<and> w = w1\<lparr>tempo_total := Some (t_fim env - t_inicio env)\<rparr>"
proof (cases "laco env (int (length imagens)) 1 imagens
                (imprimir [Iniciando (int (length imagens))] w0)")
  case (Inl e)
  with assms show ?thesis by (simp add: processar_lote_def)
next
  case (Inr w1)
  with assms show ?thesis by (auto simp: processar_lote_def)
qed

section \<open>The final report\<close>

text \<open>
  Claim C6. What \<^verbatim>\<open>_exibir_relatorio_final\<close> appends to the output contains the three
  counters and the total time; it contains a mean if and only if at least one image
  succeeded, and that mean is the total time divided by \<open>max (total - skipped) 1\<close>. The
  total time is the difference of the two clock readings of the batch loop. (Times are
  real numbers, and a printed number is the number, not its two-decimal rendering.)
\<close>

theorem relatorio_final_media:
  "Processados (sucesso w) \<in> set (drop (length (stdout w)) (stdout (exibir_relatorio_final n w)))
   \<and> JaExistiam (ignorado w) \<in> set (drop (length (stdout w)) (stdout (exibir_relatorio_final n w)))
   \<and> Falhas (falha w) \<in> set (drop (length (stdout w)) (stdout (exibir_relatorio_final n w)))
   \<and> TempoTotal (case tempo_total w of Some t \<Rightarrow> t | None \<Rightarrow> 0)
        \<in> set (drop (length (stdout w)) (stdout (exibir_relatorio_final n w)))
   \<and> ((\<exists>m. Media m \<in> set (drop (length (stdout w)) (stdout (exibir_relatorio_final n w))))
        \<longleftrightarrow> 0 < sucesso w)
   \<and> (\<forall>m. Media m \<in> set (drop (length (stdout w)) (stdout (exibir_relatorio_final n w)))
        \<longrightarrow> m = (case tempo_total w of Some t \<Rightarrow> t | None \<Rightarrow> 0)
                  / of_int (max (n - ignorado w) 1))
   \<and> (\<forall>env imagens w0. processar_lote env imagens w0 = Inr w
        \<longrightarrow> tempo_total w = Some (t_fim env - t_inicio env))"
  by (auto simp: exibir_relatorio_final_def Let_def dest: processar_lote_Inr)

text \<open>With five images, two skipped, three tagged and nine seconds, the mean printed is 3.\<close>

theorem relatorio_final_media_witness:
  "Media 3 \<in> set (drop (length (stdout mundo_exemplo))
      (stdout (exibir_relatorio_final 5
         (mundo_exemplo\<lparr>sucesso := 3, ignorado := 2, tempo_total := Some 9\<rparr>))))"
  using relatorio_final_media
    [of "mundo_exemplo\<lparr>sucesso := 3, ignorado := 2, tempo_total := Some 9\<rparr>" 5]
  by (auto simp: mundo_exemplo_def)

end
